theory Spec2Isabelle
  imports Main
begin

section \<open>Exceptions\<close>

text \<open>
  The exceptions that can travel through the module body of
  \<^verbatim>\<open>opentelemetry/propagators/__init__.py\<close>. \<open>StopIteration\<close> is what
  \<^verbatim>\<open>next\<close> raises on an exhausted iterator; \<open>Exception msg\<close> stands for any other
  exception whose class derives from \<^verbatim>\<open>Exception\<close> (ImportError, TypeError, ...);
  \<open>KeyboardInterrupt\<close> and \<open>SystemExit\<close> derive from \<^verbatim>\<open>BaseException\<close> only, so the
  clause \<^verbatim>\<open>except Exception\<close> does not catch them.
\<close>

datatype exn = StopIteration | Exception string | KeyboardInterrupt | SystemExit

fun isinstance_Exception :: "exn \<Rightarrow> bool" where
  "isinstance_Exception StopIteration = True"
| "isinstance_Exception (Exception msg) = True"
| "isinstance_Exception KeyboardInterrupt = False"
| "isinstance_Exception SystemExit = False"

section \<open>Propagators\<close>

text \<open>
  A getter reads the values stored under a key of the carrier (the empty list when the
  key is absent); a setter writes one value under a key, which the model renders as the
  carrier after the write.
\<close>

type_synonym 'c getter = "'c \<Rightarrow> string \<Rightarrow> string list"
type_synonym 'c setter = "'c \<Rightarrow> string \<Rightarrow> string \<Rightarrow> 'c"

text \<open>
  Modelled from the spec: the classes \<^verbatim>\<open>textmap.TextMapPropagator\<close> and
  \<^verbatim>\<open>composite.CompositeHTTPPropagator\<close> are defined in the sibling modules
  \<^verbatim>\<open>opentelemetry.trace.propagation.textmap\<close> and \<^verbatim>\<open>opentelemetry.propagators.composite\<close>,
  which this module imports. A propagator is either an instance of some concrete class, given
  by the fields it owns and by what its \<^verbatim>\<open>extract\<close> and \<^verbatim>\<open>inject\<close> methods do, or a
  composite holding an ordered sequence of propagators. The value passed as
  \<^verbatim>\<open>context\<close> is \<open>None\<close> when the caller omitted it. \<^verbatim>\<open>extract\<close> returns a
  context or raises; \<^verbatim>\<open>inject\<close> returns nothing, so its result is the exception it
  raised, if any, together with the carrier as its writes left it.
\<close>

datatype ('c, 'x) propagator =
    TextMapPropagator
      (fields_impl: "string set")
      (extract_impl: "'c getter \<Rightarrow> 'c \<Rightarrow> 'x option \<Rightarrow> exn + 'x option")
      (inject_impl: "'c setter \<Rightarrow> 'c \<Rightarrow> 'x option \<Rightarrow> exn option \<times> 'c")
  | CompositeHTTPPropagator "('c, 'x) propagator list"

text \<open>
  Modelled from the spec: method dispatch on a propagator. The composite folds
  \<^verbatim>\<open>extract\<close> from left to right, each member receiving the context returned by the
  member before it; it calls every member's \<^verbatim>\<open>inject\<close> in order with the same context
  on the same carrier; a member that raises ends the iteration and the exception
  reaches the caller; its fields are the union of its members' fields.
\<close>

fun extract_m :: "('c, 'x) propagator \<Rightarrow> 'c getter \<Rightarrow> 'c \<Rightarrow> 'x option \<Rightarrow> exn + 'x option"
  and extract_members ::
    "('c, 'x) propagator list \<Rightarrow> 'c getter \<Rightarrow> 'c \<Rightarrow> 'x option \<Rightarrow> exn + 'x option"
where
  "extract_m (TextMapPropagator fs ex ij) g c ctx = ex g c ctx"
| "extract_m (CompositeHTTPPropagator ps) g c ctx = extract_members ps g c ctx"
| "extract_members [] g c ctx = Inr ctx"
| "extract_members (p # ps) g c ctx =
     (case extract_m p g c ctx of
        Inl e \<Rightarrow> Inl e
      | Inr ctx' \<Rightarrow> extract_members ps g c ctx')"

fun inject_m :: "('c, 'x) propagator \<Rightarrow> 'c setter \<Rightarrow> 'c \<Rightarrow> 'x option \<Rightarrow> exn option \<times> 'c"
  and inject_members ::
    "('c, 'x) propagator list \<Rightarrow> 'c setter \<Rightarrow> 'c \<Rightarrow> 'x option \<Rightarrow> exn option \<times> 'c"
where
  "inject_m (TextMapPropagator fs ex ij) st c ctx = ij st c ctx"
| "inject_m (CompositeHTTPPropagator ps) st c ctx = inject_members ps st c ctx"
| "inject_members [] st c ctx = (None, c)"
| "inject_members (p # ps) st c ctx =
     (case inject_m p st c ctx of
        (Some e, c') \<Rightarrow> (Some e, c')
      | (None, c') \<Rightarrow> inject_members ps st c' ctx)"


section \<open>Configuration and entry points\<close>

text \<open>
  Modelled from the spec: \<^verbatim>\<open>Configuration().get(name, default)\<close>; the class is defined in the
  module \<^verbatim>\<open>opentelemetry.configuration\<close>, which this module imports. The configuration is
  the map of the values that were set; \<^verbatim>\<open>get\<close> returns the value set under the name,
  or the default when none was set.
\<close>

type_synonym configuration = "string \<rightharpoonup> string"

definition Configuration_get :: "configuration \<Rightarrow> string \<Rightarrow> string \<Rightarrow> string" where
  "Configuration_get conf name dflt = (case conf name of None \<Rightarrow> dflt | Some v \<Rightarrow> v)"

text \<open>
  Python's \<^verbatim>\<open>str.split(sep)\<close> for a one-character separator: the text is cut at every
  occurrence of the separator, nothing is trimmed, empty pieces are kept, and a text
  without separator (the empty text too) gives the one-element list of itself.
\<close>

fun str_split :: "char \<Rightarrow> string \<Rightarrow> string list" where
  "str_split sep [] = [[]]"
| "str_split sep (c # cs) =
     (if c = sep then [] # str_split sep cs
      else (case str_split sep cs of
              [] \<Rightarrow> [[c]]
            | w # ws \<Rightarrow> (c # w) # ws))"

text \<open>
  An entry point of \<^verbatim>\<open>pkg_resources\<close>: \<^verbatim>\<open>load()\<close> imports and returns the class it
  names, or raises; calling the class with no argument returns an instance, or raises.
  \<^verbatim>\<open>iter_entry_points(group, name)\<close> is a parameter of the model: the entry points
  registered under the name in the group, in the order the iterator yields them.
\<close>

datatype ('c, 'x) entry_point =
  EntryPoint (load: "exn + (unit \<Rightarrow> exn + ('c, 'x) propagator)")

type_synonym ('c, 'x) working_set = "string \<Rightarrow> string \<Rightarrow> ('c, 'x) entry_point list"

text \<open>\<^verbatim>\<open>next(it)\<close>: the first item of the iterator, \<open>StopIteration\<close> when it has none.\<close>

fun next_item :: "'a list \<Rightarrow> exn + 'a" where
  "next_item [] = Inl StopIteration"
| "next_item (x # xs) = Inr x"

text \<open>
  The expression \<^verbatim>\<open>next(iter_entry_points("opentelemetry_propagator", propagator)).load()()\<close>
  of lines 133 to 135.
\<close>

definition load_propagator ::
  "('c, 'x) working_set \<Rightarrow> string \<Rightarrow> exn + ('c, 'x) propagator" where
  "load_propagator iter_entry_points propagator =
     (case next_item (iter_entry_points ''opentelemetry_propagator'' propagator) of
        Inl e \<Rightarrow> Inl e
      | Inr ep \<Rightarrow>
          (case load ep of
             Inl e \<Rightarrow> Inl e
           | Inr cls \<Rightarrow> cls ()))"

text \<open>
  The \<^verbatim>\<open>for\<close> loop of lines 128 to 136: \<open>propagators\<close> is the list built so far, and
  the first exception leaves the loop.
\<close>

fun load_propagators ::
  "('c, 'x) working_set \<Rightarrow> string list \<Rightarrow> ('c, 'x) propagator list
     \<Rightarrow> exn + ('c, 'x) propagator list" where
  "load_propagators iter_entry_points [] propagators = Inr propagators"
| "load_propagators iter_entry_points (propagator # names) propagators =
     (case load_propagator iter_entry_points propagator of
        Inl e \<Rightarrow> Inl e
      | Inr p \<Rightarrow> load_propagators iter_entry_points names (propagators @ [p]))"

section \<open>The module and its global propagator\<close>

text \<open>
  The globals of the imported module: the list \<open>propagators\<close> and the current
  propagator \<^verbatim>\<open>_HTTP_TEXT_FORMAT\<close>. Python does not check what is stored, so the record
  is polymorphic in the type of the stored values.
\<close>

record 'p module_state =
  propagators :: "'p list"
  HTTP_TEXT_FORMAT :: 'p

text \<open>A record of the logger: the message and the exception in flight.\<close>

type_synonym log = "(string \<times> exn) list"

text \<open>
  The module body, lines 124 to 142: the records it logs and how the import ends, with
  the exception that leaves the module or with the module's globals.
\<close>

definition module_init ::
  "configuration \<Rightarrow> ('c, 'x) working_set \<Rightarrow> log \<times> (exn + ('c, 'x) propagator module_state)"
  where
  "module_init conf iter_entry_points =
     (case load_propagators iter_entry_points
             (str_split CHR '','' (Configuration_get conf ''PROPAGATORS'' ''tracecontext,baggage''))
             [] of
        Inl e \<Rightarrow>
          (if isinstance_Exception e
           then ([(''Failed to load configured propagators'', e)], Inl e)
           else ([], Inl e))
      | Inr ps \<Rightarrow>
          ([], Inr \<lparr>propagators = ps, HTTP_TEXT_FORMAT = CompositeHTTPPropagator ps\<rparr>))"

text \<open>
  \<^verbatim>\<open>get_global_textmap\<close> (lines 145 and 146) and \<^verbatim>\<open>set_global_textmap\<close> (lines 149 to
  151). Both are defined after line 142 has bound \<^verbatim>\<open>_HTTP_TEXT_FORMAT\<close>, so every state
  they can be called on holds a propagator; the read returns it together with the
  unchanged state, the write returns the state with the global bound anew.
\<close>

definition get_global_textmap :: "'p module_state \<Rightarrow> 'p \<times> 'p module_state" where
  "get_global_textmap s = (HTTP_TEXT_FORMAT s, s)"

definition set_global_textmap :: "'p \<Rightarrow> 'p module_state \<Rightarrow> 'p module_state" where
  "set_global_textmap http_text_format s = s\<lparr>HTTP_TEXT_FORMAT := http_text_format\<rparr>"

text \<open>
  The module-level \<^verbatim>\<open>extract\<close> (lines 84 to 102) and \<^verbatim>\<open>inject\<close> (lines 105 to 121);
  \<open>extract_api\<close> carries a suffix because \<open>extract\<close> is a list function of HOL.
\<close>

definition extract_api ::
  "'c getter \<Rightarrow> 'c \<Rightarrow> 'x option \<Rightarrow> ('c, 'x) propagator module_state
     \<Rightarrow> (exn + 'x option) \<times> ('c, 'x) propagator module_state" where
  "extract_api get_from_carrier carrier context s =
     (case get_global_textmap s of
        (p, s') \<Rightarrow> (extract_m p get_from_carrier carrier context, s'))"

definition inject ::
  "'c setter \<Rightarrow> 'c \<Rightarrow> 'x option \<Rightarrow> ('c, 'x) propagator module_state
     \<Rightarrow> (exn option \<times> 'c) \<times> ('c, 'x) propagator module_state" where
  "inject set_in_carrier carrier context s =
     (case get_global_textmap s of
        (p, s') \<Rightarrow> (inject_m p set_in_carrier carrier context, s'))"

section \<open>Stubs for concrete runs\<close>

text \<open>
  The stubs of the concrete scenarios: a carrier that is a list of header lines with its
  getter, a context that is a list of key and value pairs, and a propagator
  that owns one field, copies that field's first value from the carrier into the context
  and writes it back from the context into the carrier. They serve to run the definitions
  above on concrete inputs.
\<close>

type_synonym headers = "(string \<times> string) list"


definition stub_propagator :: "string \<Rightarrow> (headers, headers) propagator" where
  "stub_propagator k =
     TextMapPropagator {k}
       (\<lambda>g c ctx.
          (case g c k of
             [] \<Rightarrow> Inr ctx
           | v # vs \<Rightarrow> Inr (Some ((k, v) # (case ctx of None \<Rightarrow> [] | Some m \<Rightarrow> m)))))
       (\<lambda>st c ctx.
          (case ctx of
             None \<Rightarrow> (None, c)
           | Some m \<Rightarrow> (case map_of m k of None \<Rightarrow> (None, c) | Some v \<Rightarrow> (None, st c k v))))"

text \<open>
  A working set in which every name of the list \<open>known\<close> has one entry point, whose
  class builds the stub of that name, and no other name has any.
\<close>

definition stub_working_set :: "string list \<Rightarrow> (headers, headers) working_set" where
  "stub_working_set known grp name =
     (if grp = ''opentelemetry_propagator'' \<and> name \<in> set known
      then [EntryPoint (Inr (\<lambda>u. Inr (stub_propagator name)))]
      else [])"

text \<open>
  A working set whose entry points all name a class whose constructor is interrupted
  from the keyboard.
\<close>

definition interrupted_class :: "unit \<Rightarrow> exn + (headers, headers) propagator" where
  "interrupted_class u = Inl KeyboardInterrupt"

definition interrupted_working_set :: "(headers, headers) working_set" where
  "interrupted_working_set grp name = [EntryPoint (Inr interrupted_class)]"

text \<open>
  A working set that registers two entry points under every name: the class of the first
  builds the stub of the field \<open>first\<close>, the class of the second the stub of the field
  \<open>second\<close>.
\<close>

definition duplicate_working_set :: "(headers, headers) working_set" where
  "duplicate_working_set grp name =
     [EntryPoint (Inr (\<lambda>u. Inr (stub_propagator ''first''))),
      EntryPoint (Inr (\<lambda>u. Inr (stub_propagator ''second'')))]"


section \<open>Properties of splitting and loading\<close>



lemma str_split_no_sep: "sep \<notin> set s \<Longrightarrow> str_split sep s = [s]"
  by (induction s) auto



lemma load_propagator_cases:
  "load_propagator eps name =
     (case eps ''opentelemetry_propagator'' name of
        [] \<Rightarrow> Inl StopIteration
      | ep # rest \<Rightarrow> (case load ep of Inl e \<Rightarrow> Inl e | Inr cls \<Rightarrow> cls ()))"
  by (simp add: load_propagator_def split: list.splits)

lemma load_propagator_Inr_iff:
  "load_propagator eps name = Inr p \<longleftrightarrow>
     (\<exists>ep rest cls. eps ''opentelemetry_propagator'' name = ep # rest
        \<and> load ep = Inr cls \<and> cls () = Inr p)"
  by (auto simp: load_propagator_cases split: list.splits sum.splits)

lemma load_propagators_acc:
  "load_propagators eps ns acc =
     (case load_propagators eps ns [] of Inl e \<Rightarrow> Inl e | Inr ps \<Rightarrow> Inr (acc @ ps))"
proof (induction ns arbitrary: acc)
  case Nil
  then show ?case by simp
next
  case (Cons n ns)
  show ?case
  proof (cases "load_propagator eps n")
    case (Inl e)
    then show ?thesis by simp
  next
    case (Inr p)
    then show ?thesis
      using Cons.IH [of "acc @ [p]"] Cons.IH [of "[p]"]
      by (simp split: sum.splits)
  qed
qed

lemma load_propagators_Inr_iff:
  "load_propagators eps ns [] = Inr ps \<longleftrightarrow>
     list_all2 (\<lambda>n p. load_propagator eps n = Inr p) ns ps"
proof (induction ns arbitrary: ps)
  case Nil
  then show ?case by auto
next
  case (Cons n ns)
  show ?case
  proof (cases "load_propagator eps n")
    case (Inl e)
    then show ?thesis by (simp add: list_all2_Cons1)
  next
    case (Inr p)
    have "load_propagators eps (n # ns) [] = Inr ps \<longleftrightarrow>
            (\<exists>qs. load_propagators eps ns [] = Inr qs \<and> ps = p # qs)"
      using Inr load_propagators_acc [of eps ns "[p]"]
      by (cases "load_propagators eps ns []") auto
    also have "\<dots> \<longleftrightarrow>
        (\<exists>qs. list_all2 (\<lambda>n p. load_propagator eps n = Inr p) ns qs \<and> ps = p # qs)"
      using Cons.IH by simp
    also have "\<dots> \<longleftrightarrow> list_all2 (\<lambda>n p. load_propagator eps n = Inr p) (n # ns) ps"
      using Inr by (auto simp: list_all2_Cons1)
    finally show ?thesis .
  qed
qed

lemma load_propagators_fails:
  "n \<in> set ns \<Longrightarrow> load_propagator eps n = Inl e \<Longrightarrow>
     \<exists>n' e'. n' \<in> set ns \<and> load_propagator eps n' = Inl e'
        \<and> load_propagators eps ns acc = Inl e'"
proof (induction ns arbitrary: acc)
  case Nil
  then show ?case by simp
next
  case (Cons m ns)
  show ?case
  proof (cases "load_propagator eps m")
    case (Inl e')
    then show ?thesis by auto
  next
    case (Inr p)
    then have "n \<in> set ns" using Cons.prems by auto
    then obtain n' e' where "n' \<in> set ns" "load_propagator eps n' = Inl e'"
      "load_propagators eps ns (acc @ [p]) = Inl e'"
      using Cons.IH [of "acc @ [p]"] Cons.prems(2) by blast
    then show ?thesis using Inr by auto
  qed
qed

lemma load_propagators_cong:
  "(\<And>n. n \<in> set ns \<Longrightarrow> load_propagator eps1 n = load_propagator eps2 n) \<Longrightarrow>
     load_propagators eps1 ns acc = load_propagators eps2 ns acc"
  by (induction ns arbitrary: acc) (simp_all split: sum.splits)

lemma load_propagator_take1:
  "load_propagator (\<lambda>grp name. take 1 (eps grp name)) n = load_propagator eps n"
  by (simp add: load_propagator_cases split: list.splits)

text \<open>
  An import that fails ends with the exception and its log record, which the clause
  \<^verbatim>\<open>except Exception\<close> writes for an instance of \<^verbatim>\<open>Exception\<close> only.
\<close>

lemma module_init_fails:
  assumes "load_propagators eps
     (str_split CHR '','' (Configuration_get conf ''PROPAGATORS'' ''tracecontext,baggage'')) [] = Inl e"
  shows "module_init conf eps =
     (if isinstance_Exception e then [(''Failed to load configured propagators'', e)] else [], Inl e)"
  using assms by (simp add: module_init_def)

section \<open>The global propagator\<close>

text \<open>
  Claim C6. \<^verbatim>\<open>get_global_textmap\<close> is defined on every state of the module, raises
  nothing, returns the propagator that \<^verbatim>\<open>_HTTP_TEXT_FORMAT\<close> holds and leaves the state
  as it was.
\<close>

theorem get_global_textmap_returns_current:
  "fst (get_global_textmap s) = HTTP_TEXT_FORMAT s \<and> snd (get_global_textmap s) = s"
  by (simp add: get_global_textmap_def)

text \<open>Any number of reads in a row leave the state as it was.\<close>

lemma reads_keep_state: "((snd \<circ> get_global_textmap) ^^ n) s = s"
  by (induction n) (simp_all add: get_global_textmap_def)

text \<open>
  Claim C2. After \<^verbatim>\<open>set_global_textmap(p)\<close> the next read returns \<open>p\<close> itself, and so
  does a read after any number \<open>n\<close> of further reads; a reference \<open>held\<close> that was
  read before the swap is the propagator of the state before the swap, whatever \<open>p\<close> is,
  and a read of that earlier state still returns it.
\<close>

theorem set_global_textmap_then_get:
  "fst (get_global_textmap (set_global_textmap p s)) = p
   \<and> fst (get_global_textmap (((snd \<circ> get_global_textmap) ^^ n) (set_global_textmap p s))) = p
   \<and> (case get_global_textmap s of
        (held, s') \<Rightarrow>
          held = HTTP_TEXT_FORMAT s
          \<and> fst (get_global_textmap (set_global_textmap p s')) = p
          \<and> fst (get_global_textmap s) = held)"
  by (simp add: reads_keep_state) (simp add: get_global_textmap_def set_global_textmap_def)

text \<open>
  Claim C10. \<^verbatim>\<open>set_global_textmap\<close> stores its argument as it is, leaves the other
  global of the module alone, and does not depend on the propagator it replaces. It is
  defined for a stored value of any type, and it commutes with every function \<open>f\<close>
  applied to the stored values: it cannot look into the value it stores.
\<close>

theorem set_global_textmap_frame:
  "HTTP_TEXT_FORMAT (set_global_textmap p s) = p
   \<and> propagators (set_global_textmap p s) = propagators s
   \<and> set_global_textmap p (s\<lparr>HTTP_TEXT_FORMAT := q\<rparr>) = set_global_textmap p s
   \<and> set_global_textmap (f p)
        \<lparr>propagators = map f (propagators s), HTTP_TEXT_FORMAT = f (HTTP_TEXT_FORMAT s)\<rparr>
      = \<lparr>propagators = map f (propagators (set_global_textmap p s)),
         HTTP_TEXT_FORMAT = f (HTTP_TEXT_FORMAT (set_global_textmap p s))\<rparr>"
  by (simp add: set_global_textmap_def)

text \<open>
  Claim C4. The module-level \<^verbatim>\<open>extract\<close> returns what the \<^verbatim>\<open>extract\<close> method of the
  propagator read by \<^verbatim>\<open>get_global_textmap\<close> returns on the same arguments, the
  module-level \<^verbatim>\<open>inject\<close> has the effect of that propagator's \<^verbatim>\<open>inject\<close> method, and
  both leave the module's state as it was. After \<^verbatim>\<open>set_global_textmap(p)\<close> it is \<open>p\<close>
  they call, and the list \<open>propagators\<close> built at import plays no part.
\<close>

theorem extract_inject_use_global:
  "extract_api g c ctx s = (extract_m (fst (get_global_textmap s)) g c ctx, s)
   \<and> inject st c ctx s = (inject_m (fst (get_global_textmap s)) st c ctx, s)
   \<and> fst (extract_api g c ctx (set_global_textmap p s)) = extract_m p g c ctx
   \<and> fst (inject st c ctx (set_global_textmap p s)) = inject_m p st c ctx
   \<and> fst (extract_api g c ctx (s\<lparr>propagators := qs\<rparr>)) = fst (extract_api g c ctx s)
   \<and> fst (inject st c ctx (s\<lparr>propagators := qs\<rparr>)) = fst (inject st c ctx s)"
  by (simp add: extract_api_def inject_def get_global_textmap_def set_global_textmap_def)

section \<open>Initialisation\<close>

text \<open>
  Claim C3. The import ends with the module's globals \<open>s\<close> exactly when nothing was
  logged, the instances collected in \<open>propagators\<close> correspond one to one and in order to
  the configured names, each being what the class loaded from the first entry point of its
  name returned when called with no argument, and the global propagator is the composite of
  exactly that list.
\<close>

theorem module_init_success_iff:
  "module_init conf eps = (lg, Inr s) \<longleftrightarrow>
     lg = []
     \<and> list_all2
         (\<lambda>name p. \<exists>ep rest cls.
            eps ''opentelemetry_propagator'' name = ep # rest
            \<and> load ep = Inr cls \<and> cls () = Inr p)
         (str_split CHR '','' (Configuration_get conf ''PROPAGATORS'' ''tracecontext,baggage''))
         (propagators s)
     \<and> HTTP_TEXT_FORMAT s = CompositeHTTPPropagator (propagators s)"
proof -
  let ?names = "str_split CHR '','' (Configuration_get conf ''PROPAGATORS'' ''tracecontext,baggage'')"
  define R where "R = (\<lambda>name p. \<exists>ep rest cls.
            eps ''opentelemetry_propagator'' name = ep # rest
            \<and> load ep = Inr cls \<and> cls () = Inr p)"
  have res: "list_all2 R ?names ps \<longleftrightarrow> load_propagators eps ?names [] = Inr ps" for ps
    unfolding R_def by (simp add: load_propagators_Inr_iff load_propagator_Inr_iff)
  have "module_init conf eps = (lg, Inr s) \<longleftrightarrow>
     lg = [] \<and> list_all2 R ?names (propagators s)
     \<and> HTTP_TEXT_FORMAT s = CompositeHTTPPropagator (propagators s)"
  proof (cases "load_propagators eps ?names []")
    case (Inl e)
    then show ?thesis by (simp add: module_init_def res)
  next
    case (Inr ps)
    then show ?thesis
      by (cases s) (auto simp: module_init_def res)
  qed
  then show ?thesis unfolding R_def .
qed

text \<open>
  The theorem at a configuration that names two stubs in an order of its own.
\<close>

theorem module_init_success_witness:
  "module_init [''PROPAGATORS'' \<mapsto> ''b3,tracecontext''] (stub_working_set [''tracecontext'', ''b3''])
     = ([], Inr \<lparr>propagators = [stub_propagator ''b3'', stub_propagator ''tracecontext''],
                HTTP_TEXT_FORMAT =
                  CompositeHTTPPropagator [stub_propagator ''b3'', stub_propagator ''tracecontext'']\<rparr>)"
  by (rule module_init_success_iff [THEN iffD2])
    (simp add: Configuration_get_def stub_working_set_def)

text \<open>
  Claim C5. When the configuration holds no value for \<^verbatim>\<open>PROPAGATORS\<close>, the names are
  those of the default \<^verbatim>\<open>"tracecontext,baggage"\<close>, in that order; where both resolve,
  to \<open>t\<close> and to \<open>b\<close>, the global propagator is the composite of \<open>t\<close> followed by
  \<open>b\<close>.
\<close>

theorem module_init_default_names:
  "conf ''PROPAGATORS'' = None \<Longrightarrow>
   load_propagator eps ''tracecontext'' = Inr t \<Longrightarrow>
   load_propagator eps ''baggage'' = Inr b \<Longrightarrow>
     str_split CHR '','' (Configuration_get conf ''PROPAGATORS'' ''tracecontext,baggage'')
       = [''tracecontext'', ''baggage'']
     \<and> module_init conf eps
       = ([], Inr \<lparr>propagators = [t, b], HTTP_TEXT_FORMAT = CompositeHTTPPropagator [t, b]\<rparr>)"
  by (simp add: module_init_def Configuration_get_def)

text \<open>
  The theorem at the empty configuration and a working set that knows three names.
\<close>

theorem module_init_default_names_witness:
  "str_split CHR '','' (Configuration_get Map.empty ''PROPAGATORS'' ''tracecontext,baggage'')
       = [''tracecontext'', ''baggage'']
   \<and> module_init Map.empty (stub_working_set [''b3'', ''baggage'', ''tracecontext''])
       = ([], Inr \<lparr>propagators = [stub_propagator ''tracecontext'', stub_propagator ''baggage''],
                  HTTP_TEXT_FORMAT =
                    CompositeHTTPPropagator
                      [stub_propagator ''tracecontext'', stub_propagator ''baggage'']\<rparr>)"
  by (rule module_init_default_names)
    (simp_all add: load_propagator_def stub_working_set_def)

text \<open>
  Claim C9. Where the lookup of a name yields entry points, the first one is loaded and
  its class called, and the result is what the name resolves to: with one configured name
  the global propagator is the composite of the instance that the first entry point's class
  built, and a failure of the first entry point fails the import whatever follows it. What
  the lookup yields after the first entry is ignored: cutting every lookup down to its first
  entry changes nothing of the import.
\<close>

theorem module_init_first_entry_only:
  "(eps ''opentelemetry_propagator'' name = ep # rest \<longrightarrow>
      load_propagator eps name = (case load ep of Inl e \<Rightarrow> Inl e | Inr cls \<Rightarrow> cls ()))
   \<and> (conf ''PROPAGATORS'' = Some name \<and> CHR '','' \<notin> set name
        \<and> eps ''opentelemetry_propagator'' name = ep # rest
        \<and> load ep = Inr cls \<and> cls () = Inr p \<longrightarrow>
        module_init conf eps
          = ([], Inr \<lparr>propagators = [p], HTTP_TEXT_FORMAT = CompositeHTTPPropagator [p]\<rparr>))
   \<and> (conf ''PROPAGATORS'' = Some name \<and> CHR '','' \<notin> set name
        \<and> eps ''opentelemetry_propagator'' name = ep # rest
        \<and> (load ep = Inl e \<or> (load ep = Inr cls \<and> cls () = Inl e)) \<longrightarrow>
        snd (module_init conf eps) = Inl e)
   \<and> module_init conf (\<lambda>grp name. take 1 (eps grp name)) = module_init conf eps
   \<and> load_propagator (\<lambda>grp name. ep # rest) name = load_propagator (\<lambda>grp name. [ep]) name"
proof -
  have a: "eps ''opentelemetry_propagator'' name = ep # rest \<longrightarrow>
      load_propagator eps name = (case load ep of Inl e \<Rightarrow> Inl e | Inr cls \<Rightarrow> cls ())"
    by (simp add: load_propagator_cases)
  have b: "conf ''PROPAGATORS'' = Some name \<and> CHR '','' \<notin> set name
        \<and> eps ''opentelemetry_propagator'' name = ep # rest
        \<and> load ep = Inr cls \<and> cls () = Inr p \<longrightarrow>
        module_init conf eps
          = ([], Inr \<lparr>propagators = [p], HTTP_TEXT_FORMAT = CompositeHTTPPropagator [p]\<rparr>)"
    by (simp add: module_init_def Configuration_get_def str_split_no_sep load_propagator_cases)
  have c: "conf ''PROPAGATORS'' = Some name \<and> CHR '','' \<notin> set name
        \<and> eps ''opentelemetry_propagator'' name = ep # rest
        \<and> (load ep = Inl e \<or> (load ep = Inr cls \<and> cls () = Inl e)) \<longrightarrow>
        snd (module_init conf eps) = Inl e"
    by (auto simp: module_init_def Configuration_get_def str_split_no_sep load_propagator_cases)
  have "load_propagators (\<lambda>grp name. take 1 (eps grp name)) ns [] = load_propagators eps ns []"
    for ns
    by (rule load_propagators_cong) (rule load_propagator_take1)
  then have d: "module_init conf (\<lambda>grp name. take 1 (eps grp name)) = module_init conf eps"
    by (simp add: module_init_def)
  have e: "load_propagator (\<lambda>grp name. ep # rest) name = load_propagator (\<lambda>grp name. [ep]) name"
    by (simp add: load_propagator_cases)
  from a b c d e show ?thesis by blast
qed

text \<open>
  The theorem at a working set with two entry points under the configured name.
\<close>

theorem module_init_first_entry_only_witness:
  "duplicate_working_set ''opentelemetry_propagator'' ''dup''
     = [EntryPoint (Inr (\<lambda>u. Inr (stub_propagator ''first''))),
        EntryPoint (Inr (\<lambda>u. Inr (stub_propagator ''second'')))]
   \<and> load_propagator duplicate_working_set ''dup'' = Inr (stub_propagator ''first'')
   \<and> module_init [''PROPAGATORS'' \<mapsto> ''dup''] duplicate_working_set
       = ([], Inr \<lparr>propagators = [stub_propagator ''first''],
                  HTTP_TEXT_FORMAT = CompositeHTTPPropagator [stub_propagator ''first'']\<rparr>)"
proof -
  have h: "duplicate_working_set ''opentelemetry_propagator'' ''dup''
     = [EntryPoint (Inr (\<lambda>u. Inr (stub_propagator ''first''))),
        EntryPoint (Inr (\<lambda>u. Inr (stub_propagator ''second'')))]"
    by (simp add: duplicate_working_set_def)
  note inst = module_init_first_entry_only
    [where eps = duplicate_working_set and name = "''dup''"
       and ep = "EntryPoint (Inr (\<lambda>u. Inr (stub_propagator ''first'')))"
       and rest = "[EntryPoint (Inr (\<lambda>u. Inr (stub_propagator ''second'')))]"
       and conf = "[''PROPAGATORS'' \<mapsto> ''dup'']"
       and cls = "\<lambda>u. Inr (stub_propagator ''first'')"
       and p = "stub_propagator ''first''"]
  have w1: "load_propagator duplicate_working_set ''dup'' = Inr (stub_propagator ''first'')"
    using inst h by simp
  have w2: "module_init [''PROPAGATORS'' \<mapsto> ''dup''] duplicate_working_set
       = ([], Inr \<lparr>propagators = [stub_propagator ''first''],
                  HTTP_TEXT_FORMAT = CompositeHTTPPropagator [stub_propagator ''first'']\<rparr>)"
    using inst h by simp
  from h w1 w2 show ?thesis by blast
qed



text \<open>
  Claim C1, as stated, fails: the constructor of the class registered under
  \<^verbatim>\<open>tracecontext\<close> raises \<open>KeyboardInterrupt\<close>, the import ends with that exception, and
  nothing is logged, since \<^verbatim>\<open>except Exception\<close> does not catch it.
\<close>

theorem module_init_interrupt_not_logged:
  "interrupted_working_set ''opentelemetry_propagator'' ''tracecontext''
     = [EntryPoint (Inr interrupted_class)]
   \<and> interrupted_class () = Inl KeyboardInterrupt
   \<and> module_init Map.empty interrupted_working_set = ([], Inl KeyboardInterrupt)"
  by (simp add: module_init_def Configuration_get_def load_propagator_def
      interrupted_working_set_def interrupted_class_def)

text \<open>
  Claim C1, amended. When the lookup of a configured name finds no entry point, or the
  load of its first entry point or the constructor raises, the import fails as a whole:
  it ends with the exception \<open>e\<close> of a configured name that fails to load, no module
  state and so no global propagator comes to exist, and the failure is logged before \<open>e\<close>
  is raised again exactly when \<open>e\<close> is an instance of \<^verbatim>\<open>Exception\<close>, as the
  \<open>StopIteration\<close> of a missing entry point is.
\<close>

theorem module_init_all_or_nothing:
  assumes configured:
      "name \<in> set (str_split CHR '','' (Configuration_get conf ''PROPAGATORS'' ''tracecontext,baggage''))"
    and fails:
      "eps ''opentelemetry_propagator'' name = []
       \<or> (\<exists>ep rest e. eps ''opentelemetry_propagator'' name = ep # rest
             \<and> (load ep = Inl e \<or> (\<exists>cls. load ep = Inr cls \<and> cls () = Inl e)))"
  shows "\<exists>failing e.
           failing \<in> set (str_split CHR '','' (Configuration_get conf ''PROPAGATORS'' ''tracecontext,baggage''))
           \<and> load_propagator eps failing = Inl e
           \<and> snd (module_init conf eps) = Inl e
           \<and> fst (module_init conf eps) =
               (if isinstance_Exception e
                then [(''Failed to load configured propagators'', e)] else [])"
proof -
  let ?names = "str_split CHR '','' (Configuration_get conf ''PROPAGATORS'' ''tracecontext,baggage'')"
  have "\<exists>e. load_propagator eps name = Inl e"
    using fails by (auto simp: load_propagator_cases)
  then obtain failing e' where f: "failing \<in> set ?names" "load_propagator eps failing = Inl e'"
      and l: "load_propagators eps ?names [] = Inl e'"
    using load_propagators_fails [OF configured, of eps _ "[]"] by blast
  have "module_init conf eps =
     (if isinstance_Exception e' then [(''Failed to load configured propagators'', e')] else [], Inl e')"
    using l by (rule module_init_fails)
  then show ?thesis
    using f by (intro exI [of _ failing] exI [of _ e']) simp
qed

text \<open>
  The theorem at a configuration whose second name has no entry point.
\<close>

theorem module_init_all_or_nothing_witness:
  "''nope'' \<in> set (str_split CHR '','' (Configuration_get [''PROPAGATORS'' \<mapsto> ''tracecontext,nope'']
        ''PROPAGATORS'' ''tracecontext,baggage''))
   \<and> stub_working_set [''tracecontext''] ''opentelemetry_propagator'' ''nope'' = []
   \<and> snd (module_init [''PROPAGATORS'' \<mapsto> ''tracecontext,nope''] (stub_working_set [''tracecontext'']))
       \<noteq> Inr \<lparr>propagators = [stub_propagator ''tracecontext''],
                 HTTP_TEXT_FORMAT = CompositeHTTPPropagator [stub_propagator ''tracecontext'']\<rparr>
   \<and> (\<exists>e. snd (module_init [''PROPAGATORS'' \<mapsto> ''tracecontext,nope''] (stub_working_set [''tracecontext'']))
              = Inl e
          \<and> fst (module_init [''PROPAGATORS'' \<mapsto> ''tracecontext,nope''] (stub_working_set [''tracecontext'']))
              = (if isinstance_Exception e
                 then [(''Failed to load configured propagators'', e)] else []))"
proof -
  have h1: "''nope'' \<in> set (str_split CHR '','' (Configuration_get [''PROPAGATORS'' \<mapsto> ''tracecontext,nope'']
        ''PROPAGATORS'' ''tracecontext,baggage''))"
    by (simp add: Configuration_get_def)
  have h2: "stub_working_set [''tracecontext''] ''opentelemetry_propagator'' ''nope'' = []"
    by (simp add: stub_working_set_def)
  have "\<exists>e. snd (module_init [''PROPAGATORS'' \<mapsto> ''tracecontext,nope''] (stub_working_set [''tracecontext'']))
              = Inl e
          \<and> fst (module_init [''PROPAGATORS'' \<mapsto> ''tracecontext,nope''] (stub_working_set [''tracecontext'']))
              = (if isinstance_Exception e
                 then [(''Failed to load configured propagators'', e)] else [])"
    using h2
      module_init_all_or_nothing
        [where eps = "stub_working_set [''tracecontext'']" and name = "''nope''", OF h1]
    by blast
  then show ?thesis
    using h1 h2 by auto
qed

section \<open>The composite propagator\<close>




end
